theory Spec2Isabelle
  imports Main
begin

section \<open>Values\<close>

text \<open>
  The program keeps every collection in a JSON file and works on what \<^verbatim>\<open>json.load\<close>
  returns: \<^verbatim>\<open>None\<close>, booleans, integers, strings, lists and dictionaries with string
  keys. A dictionary is an association list in insertion order, as Python keeps it; a
  Python dictionary holds each key once, and a lookup reads the first item under a key.
  Floating-point numbers are left out of the model, and so are failures of writing a
  file.
\<close>

datatype json =
    JNull
  | JBool bool
  | JInt int
  | JStr string
  | JList "json list"
  | JObj "(string \<times> json) list"

text \<open>
  Python's \<^verbatim>\<open>==\<close> on these values. A boolean equals the integer 0 or 1 it stands for;
  lists are equal when they have the same length and equal items; dictionaries are equal
  when they have the same number of keys and every item of the left one has an equal
  value under the same key in the right one (the order of the keys does not matter).
\<close>

fun py_eq :: "json \<Rightarrow> json \<Rightarrow> bool" where
  "py_eq JNull JNull = True"
| "py_eq (JBool a) (JBool b) = (a = b)"
| "py_eq (JBool a) (JInt n) = ((if a then 1 else 0) = n)"
| "py_eq (JInt m) (JBool b) = (m = (if b then 1 else 0))"
| "py_eq (JInt m) (JInt n) = (m = n)"
| "py_eq (JStr s) (JStr t) = (s = t)"
| "py_eq (JList xs) (JList ys) = list_all2 py_eq xs ys"
| "py_eq (JObj a) (JObj b) =
     (length a = length b \<and>
      list_all (\<lambda>(k, v). list_ex (\<lambda>(k', w). k' = k \<and> py_eq v w) b) a)"
| "py_eq _ _ = False"

text \<open>
  The exceptions that reach the caller of an operation: the three that the operations
  raise on loaded data, and those that reading and decoding a file can raise besides
  \<^verbatim>\<open>JSONDecodeError\<close> (bytes that are not UTF-8, nesting beyond the recursion limit,
  an integer literal beyond the digit limit).
\<close>

datatype py_error =
    KeyError | TypeError | AttributeError
  | UnicodeDecodeError | RecursionError | ValueError

text \<open>\<^verbatim>\<open>x[key]\<close> with a string key: only a dictionary can be subscripted that way.\<close>

fun getitem :: "json \<Rightarrow> string \<Rightarrow> py_error + json" where
  "getitem (JObj d) key = (case map_of d key of None \<Rightarrow> Inl KeyError | Some v \<Rightarrow> Inr v)"
| "getitem _ key = Inl TypeError"

text \<open>\<^verbatim>\<open>d[key] = v\<close>: an existing key keeps its place, a new key goes to the end.\<close>

fun setitem :: "(string \<times> json) list \<Rightarrow> string \<Rightarrow> json \<Rightarrow> (string \<times> json) list" where
  "setitem [] key v = [(key, v)]"
| "setitem ((k, w) # d) key v = (if k = key then (key, v) # d else (k, w) # setitem d key v)"

text \<open>\<^verbatim>\<open>d.update(new_info)\<close> stores the items of \<^verbatim>\<open>new_info\<close> one after the other.\<close>

definition dict_update :: "(string \<times> json) list \<Rightarrow> (string \<times> json) list \<Rightarrow> (string \<times> json) list" where
  "dict_update d new_info = foldl (\<lambda>acc (k, v). setitem acc k v) d new_info"

text \<open>
  \<^verbatim>\<open>for x in data\<close>: a list gives its items, a dictionary its keys, a string its
  characters; nothing else can be iterated.
\<close>

fun iterate :: "json \<Rightarrow> py_error + json list" where
  "iterate (JList xs) = Inr xs"
| "iterate (JObj d) = Inr (map (\<lambda>(k, v). JStr k) d)"
| "iterate (JStr s) = Inr (map (\<lambda>c. JStr [c]) s)"
| "iterate _ = Inl TypeError"

text \<open>\<^verbatim>\<open>data.append(x)\<close>: only a list has the method.\<close>

fun py_append :: "json \<Rightarrow> json \<Rightarrow> py_error + json" where
  "py_append (JList xs) x = Inr (JList (xs @ [x]))"
| "py_append _ x = Inl AttributeError"

section \<open>Entity records\<close>

record Hotel =
  hotel_id :: json
  name :: json
  location :: json
  rooms_available :: json

record Customer =
  customer_id :: json
  name :: json
  email :: json

record Reservation =
  reservation_id :: json
  customer_id :: json
  hotel_id :: json

text \<open>\<^verbatim>\<open>to_dict\<close> returns the attribute dictionary, in the order \<^verbatim>\<open>__init__\<close> assigns.\<close>

definition Hotel_to_dict :: "Hotel \<Rightarrow> json" where
  "Hotel_to_dict h = JObj [(''hotel_id'', Hotel.hotel_id h), (''name'', Hotel.name h),
     (''location'', location h), (''rooms_available'', rooms_available h)]"

definition Customer_to_dict :: "Customer \<Rightarrow> json" where
  "Customer_to_dict c = JObj [(''customer_id'', Customer.customer_id c),
     (''name'', Customer.name c), (''email'', email c)]"

definition Reservation_to_dict :: "Reservation \<Rightarrow> json" where
  "Reservation_to_dict r = JObj [(''reservation_id'', reservation_id r),
     (''customer_id'', Reservation.customer_id r), (''hotel_id'', Reservation.hotel_id r)]"

section \<open>Persistence\<close>

text \<open>
  A file that exists holds text that \<^verbatim>\<open>json.load\<close> rejects with
  \<^verbatim>\<open>JSONDecodeError\<close>, or content on which reading or decoding raises another
  exception, or a JSON document. The world is the files by name and what has been
  printed so far. \<^verbatim>\<open>json.dump\<close> followed by \<^verbatim>\<open>json.load\<close> gives the value back, so a
  saved file holds the value itself.
\<close>

datatype file_content = Invalid_format | Unreadable py_error | Document json

datatype printed = Text string | Repr json

record world =
  files :: "string \<rightharpoonup> file_content"
  stdout :: "printed list"

definition print :: "printed \<Rightarrow> world \<Rightarrow> world" where
  "print x w = w\<lparr>stdout := stdout w @ [x]\<rparr>"

text \<open>
  \<^verbatim>\<open>load_data\<close> catches \<^verbatim>\<open>JSONDecodeError\<close> only: any other exception of the
  \<^verbatim>\<open>with\<close> block leaves the function.
\<close>

definition load_data :: "string \<Rightarrow> world \<Rightarrow> (py_error + json) \<times> world" where
  "load_data file_name w =
     (case files w file_name of
        Some (Document d) \<Rightarrow> (Inr d, w)
      | Some Invalid_format \<Rightarrow>
          (Inr (JList []),
           print (Text (''Error reading '' @ file_name @ ''. Invalid format.'')) w)
      | Some (Unreadable e) \<Rightarrow> (Inl e, w)
      | None \<Rightarrow> (Inr (JList []), w))"

definition save_data :: "string \<Rightarrow> json \<Rightarrow> world \<Rightarrow> world" where
  "save_data file_name data w = w\<lparr>files := (files w)(file_name \<mapsto> Document data)\<rparr>"

section \<open>Managers\<close>

text \<open>
  The three manager classes repeat the same method bodies, each with its own \<^verbatim>\<open>FILE\<close>
  and its own identifier key. The bodies are written once here, over the class; the
  methods of the source are their instances below.
\<close>

datatype manager = HotelManager | CustomerManager | ReservationManager

fun FILE :: "manager \<Rightarrow> string" where
  "FILE HotelManager = ''hotels.json''"
| "FILE CustomerManager = ''customers.json''"
| "FILE ReservationManager = ''reservations.json''"

fun id_key :: "manager \<Rightarrow> string" where
  "id_key HotelManager = ''hotel_id''"
| "id_key CustomerManager = ''customer_id''"
| "id_key ReservationManager = ''reservation_id''"

text \<open>An operation returns normally (\<open>Inr ()\<close>) or raises, and leaves a world.\<close>

type_synonym outcome = "(py_error + unit) \<times> world"

definition create :: "manager \<Rightarrow> json \<Rightarrow> world \<Rightarrow> outcome" where
  "create cls entry w =
     (case load_data (FILE cls) w of
        (Inl e, w1) \<Rightarrow> (Inl e, w1)
      | (Inr items, w1) \<Rightarrow>
          (case py_append items entry of
             Inl e \<Rightarrow> (Inl e, w1)
           | Inr items' \<Rightarrow> (Inr (), save_data (FILE cls) items' w1)))"

text \<open>The comprehension \<^verbatim>\<open>[h for h in items if h[key] != ident]\<close>.\<close>

fun keep_others :: "string \<Rightarrow> json \<Rightarrow> json list \<Rightarrow> py_error + json list" where
  "keep_others key ident [] = Inr []"
| "keep_others key ident (h # hs) =
     (case getitem h key of
        Inl e \<Rightarrow> Inl e
      | Inr v \<Rightarrow>
          (case keep_others key ident hs of
             Inl e \<Rightarrow> Inl e
           | Inr rest \<Rightarrow> Inr (if \<not> py_eq v ident then h # rest else rest)))"

definition delete :: "manager \<Rightarrow> json \<Rightarrow> world \<Rightarrow> outcome" where
  "delete cls ident w =
     (case load_data (FILE cls) w of
        (Inl e, w1) \<Rightarrow> (Inl e, w1)
      | (Inr items, w1) \<Rightarrow>
          (case iterate items of
             Inl e \<Rightarrow> (Inl e, w1)
           | Inr hs \<Rightarrow>
               (case keep_others (id_key cls) ident hs of
                  Inl e \<Rightarrow> (Inl e, w1)
                | Inr kept \<Rightarrow> (Inr (), save_data (FILE cls) (JList kept) w1))))"

text \<open>The loop of \<^verbatim>\<open>display\<close>: it has no \<^verbatim>\<open>break\<close>.\<close>

fun display_loop :: "string \<Rightarrow> json \<Rightarrow> json list \<Rightarrow> world \<Rightarrow> outcome" where
  "display_loop key ident [] w = (Inr (), w)"
| "display_loop key ident (h # hs) w =
     (case getitem h key of
        Inl e \<Rightarrow> (Inl e, w)
      | Inr v \<Rightarrow> display_loop key ident hs (if py_eq v ident then print (Repr h) w else w))"

definition display :: "manager \<Rightarrow> json \<Rightarrow> world \<Rightarrow> outcome" where
  "display cls ident w =
     (case load_data (FILE cls) w of
        (Inl e, w1) \<Rightarrow> (Inl e, w1)
      | (Inr items, w1) \<Rightarrow>
          (case iterate items of
             Inl e \<Rightarrow> (Inl e, w1)
           | Inr hs \<Rightarrow> display_loop (id_key cls) ident hs w1))"

text \<open>
  The loop of \<^verbatim>\<open>modify\<close> updates the matching dictionaries in place; the result is the
  list of items after the loop. An item whose key could be read is a dictionary.
\<close>

fun modify_loop ::
  "string \<Rightarrow> json \<Rightarrow> (string \<times> json) list \<Rightarrow> json list \<Rightarrow> py_error + json list" where
  "modify_loop key ident new_info [] = Inr []"
| "modify_loop key ident new_info (h # hs) =
     (case getitem h key of
        Inl e \<Rightarrow> Inl e
      | Inr v \<Rightarrow>
          (case modify_loop key ident new_info hs of
             Inl e \<Rightarrow> Inl e
           | Inr rest \<Rightarrow>
               Inr ((case h of
                       JObj d \<Rightarrow> if py_eq v ident then JObj (dict_update d new_info) else h
                     | _ \<Rightarrow> h) # rest)))"

text \<open>
  Only the items of a list are dictionaries that the loop can change, so what is saved
  is the list of updated items, or the loaded value itself when it is not a list.
\<close>

definition modify :: "manager \<Rightarrow> json \<Rightarrow> (string \<times> json) list \<Rightarrow> world \<Rightarrow> outcome" where
  "modify cls ident new_info w =
     (case load_data (FILE cls) w of
        (Inl e, w1) \<Rightarrow> (Inl e, w1)
      | (Inr items, w1) \<Rightarrow>
          (case iterate items of
             Inl e \<Rightarrow> (Inl e, w1)
           | Inr hs \<Rightarrow>
               (case modify_loop (id_key cls) ident new_info hs of
                  Inl e \<Rightarrow> (Inl e, w1)
                | Inr hs' \<Rightarrow>
                    (Inr (),
                     save_data (FILE cls)
                       (case items of JList _ \<Rightarrow> JList hs' | _ \<Rightarrow> items) w1))))"

subsection \<open>The methods of the three classes\<close>

definition create_hotel :: "Hotel \<Rightarrow> world \<Rightarrow> outcome" where
  "create_hotel hotel = create HotelManager (Hotel_to_dict hotel)"

definition delete_hotel :: "json \<Rightarrow> world \<Rightarrow> outcome" where
  "delete_hotel ident = delete HotelManager ident"

definition display_hotel :: "json \<Rightarrow> world \<Rightarrow> outcome" where
  "display_hotel ident = display HotelManager ident"

definition modify_hotel :: "json \<Rightarrow> (string \<times> json) list \<Rightarrow> world \<Rightarrow> outcome" where
  "modify_hotel ident new_info = modify HotelManager ident new_info"

definition create_customer :: "Customer \<Rightarrow> world \<Rightarrow> outcome" where
  "create_customer customer = create CustomerManager (Customer_to_dict customer)"

definition delete_customer :: "json \<Rightarrow> world \<Rightarrow> outcome" where
  "delete_customer ident = delete CustomerManager ident"

definition display_customer :: "json \<Rightarrow> world \<Rightarrow> outcome" where
  "display_customer ident = display CustomerManager ident"

definition modify_customer :: "json \<Rightarrow> (string \<times> json) list \<Rightarrow> world \<Rightarrow> outcome" where
  "modify_customer ident new_info = modify CustomerManager ident new_info"

definition create_reservation :: "Reservation \<Rightarrow> world \<Rightarrow> outcome" where
  "create_reservation reservation = create ReservationManager (Reservation_to_dict reservation)"

definition cancel_reservation :: "json \<Rightarrow> world \<Rightarrow> outcome" where
  "cancel_reservation ident = delete ReservationManager ident"

section \<open>Vocabulary of the properties\<close>

text \<open>An entry carries an identifier when it is a dictionary whose identifier key holds
  a value equal to it.\<close>

definition carries :: "string \<Rightarrow> json \<Rightarrow> json \<Rightarrow> bool" where
  "carries key ident h = (case getitem h key of Inl e \<Rightarrow> False | Inr v \<Rightarrow> py_eq v ident)"

text \<open>A record of a manager is a dictionary that has the manager's identifier key.\<close>

fun is_dict :: "json \<Rightarrow> bool" where
  "is_dict (JObj d) = True"
| "is_dict _ = False"

definition has_key :: "string \<Rightarrow> json \<Rightarrow> bool" where
  "has_key key h = (case getitem h key of Inl e \<Rightarrow> False | Inr v \<Rightarrow> True)"

text \<open>What loading the file of a manager gives in a world: a value, or an exception.\<close>

definition loaded :: "manager \<Rightarrow> world \<Rightarrow> py_error + json" where
  "loaded cls w = fst (load_data (FILE cls) w)"

text \<open>What \<^verbatim>\<open>update\<close> makes of an entry: only a dictionary is changed.\<close>

fun merged :: "json \<Rightarrow> (string \<times> json) list \<Rightarrow> json" where
  "merged (JObj d) new_info = JObj (dict_update d new_info)"
| "merged h new_info = h"

text \<open>
  A persisted collection, in the words of the specification: a document that is an
  array of key-value objects.
\<close>

definition persisted_collection :: "file_content \<Rightarrow> bool" where
  "persisted_collection c =
     (case c of Document (JList hs) \<Rightarrow> list_all is_dict hs | _ \<Rightarrow> False)"

section \<open>Sample data\<close>

text \<open>
  The hotel and the reservation of the test suite's \<^verbatim>\<open>setUp\<close>, further entries,
  two dictionaries that have no identifier key, and a disk that holds one file and has
  printed nothing.
\<close>

definition grand_plaza :: Hotel where
  "grand_plaza = \<lparr>Hotel.hotel_id = JStr ''1'', Hotel.name = JStr ''Grand Plaza'',
     location = JStr ''New York'', rooms_available = JInt 100\<rparr>"

definition seaside :: Hotel where
  "seaside = \<lparr>Hotel.hotel_id = JStr ''2'', Hotel.name = JStr ''Seaside'',
     location = JStr ''Lisbon'', rooms_available = JInt 12\<rparr>"

definition grand_plaza_annex :: Hotel where
  "grand_plaza_annex = \<lparr>Hotel.hotel_id = JStr ''1'', Hotel.name = JStr ''Grand Plaza Annex'',
     location = JStr ''Newark'', rooms_available = JInt 40\<rparr>"

definition booking :: Reservation where
  "booking = \<lparr>reservation_id = JStr ''1'', Reservation.customer_id = JStr ''1'',
     Reservation.hotel_id = JStr ''1''\<rparr>"

definition earlier_booking :: Reservation where
  "earlier_booking = \<lparr>reservation_id = JStr ''0'', Reservation.customer_id = JStr ''1'',
     Reservation.hotel_id = JStr ''2''\<rparr>"

definition nameless :: json where
  "nameless = JObj [(''name'', JStr ''Harbour Inn'')]"

definition walk_in :: json where
  "walk_in = JObj [(''customer_id'', JStr ''1'')]"

definition disk :: "string \<Rightarrow> file_content \<Rightarrow> world" where
  "disk file_name c = \<lparr>files = [file_name \<mapsto> c], stdout = []\<rparr>"

section \<open>Facts about the operations\<close>

text \<open>The equations that evaluate the operations on the sample data.\<close>

lemmas fixtures = grand_plaza_def seaside_def booking_def disk_def Hotel_to_dict_def
  Reservation_to_dict_def loaded_def load_data_def save_data_def print_def carries_def has_key_def

text \<open>Every modelled value is equal to itself.\<close>

lemma py_eq_refl: "py_eq v v"
proof (induction v)
  case (JList xs)
  then show ?case by (simp add: list_all2_same)
next
  case (JObj a)
  then show ?case by (fastforce simp: list_all_iff list_ex_iff)
qed simp_all

lemma files_load_data: "files (snd (load_data f w)) = files w"
  by (simp add: load_data_def print_def split: option.splits file_content.splits)

lemma loaded_save_data: "loaded cls (save_data (FILE cls) d w) = Inr d"
  by (simp add: loaded_def load_data_def save_data_def)

text \<open>On entries that all have the key, the three loops are a filter, a print of the
  matches and a map.\<close>

lemma keep_others_filter:
  "\<forall>h\<in>set hs. has_key key h \<Longrightarrow>
   keep_others key ident hs = Inr (filter (\<lambda>h. \<not> carries key ident h) hs)"
  by (induction hs) (auto simp: has_key_def carries_def split: sum.splits)

lemma display_loop_prints:
  "\<forall>h\<in>set hs. has_key key h \<Longrightarrow>
   display_loop key ident hs w =
     (Inr (), w\<lparr>stdout := stdout w @ map Repr (filter (carries key ident) hs)\<rparr>)"
  by (induction hs arbitrary: w) (auto simp: has_key_def carries_def print_def split: sum.splits)

lemma modify_loop_map:
  "\<forall>h\<in>set hs. has_key key h \<Longrightarrow>
   modify_loop key ident new_info hs =
     Inr (map (\<lambda>h. if carries key ident h then merged h new_info else h) hs)"
  by (induction hs) (auto simp: has_key_def carries_def split: sum.splits json.splits)

text \<open>What a dictionary reads after \<^verbatim>\<open>update\<close>: the later items of \<^verbatim>\<open>new_info\<close> win.\<close>

lemma map_of_setitem: "map_of (setitem d key v) = (map_of d)(key \<mapsto> v)"
  by (induction d key v rule: setitem.induct) auto

lemma map_of_dict_update:
  "map_of (dict_update d new_info) = map_of d ++ map_of (rev new_info)"
  unfolding dict_update_def
proof (induction new_info arbitrary: d)
  case Nil
  then show ?case by simp
next
  case (Cons a new_info)
  obtain k v where a: "a = (k, v)" by (cases a)
  show ?case
    by (simp add: a Cons.IH map_of_setitem map_add_upd_left)
      (auto simp: map_add_def fun_eq_iff split: option.splits)
qed

lemma getitem_merged_named:
  assumes "distinct (map fst new_info)" and "(f, v) \<in> set new_info" and "is_dict h"
  shows "getitem (merged h new_info) f = Inr v"
proof -
  from assms(3) obtain d where h: "h = JObj d" by (cases h) auto
  have "distinct (map fst (rev new_info))" using assms(1) by (simp add: rev_map [symmetric])
  moreover have "(f, v) \<in> set (rev new_info)" using assms(2) by simp
  ultimately have "map_of (rev new_info) f = Some v" by (rule map_of_is_SomeI)
  then show ?thesis by (simp add: h map_of_dict_update map_add_def)
qed

lemma getitem_merged_other:
  assumes "f \<notin> fst ` set new_info"
  shows "getitem (merged h new_info) f = getitem h f"
proof (cases h)
  case (JObj d)
  have "map_of (rev new_info) f = None" using assms by (simp add: map_of_eq_None_iff)
  then show ?thesis by (simp add: JObj map_of_dict_update map_add_def)
qed simp_all

lemma has_key_is_dict: "has_key key h \<Longrightarrow> is_dict h"
  by (cases h) (auto simp: has_key_def)




text \<open>The four operations on a file that loads as a list of records.\<close>

lemma create_run:
  "loaded cls w = Inr (JList hs) \<Longrightarrow>
   create cls entry w =
     (Inr (), save_data (FILE cls) (JList (hs @ [entry])) (snd (load_data (FILE cls) w)))"
  by (simp add: create_def split_beta loaded_def [symmetric])

lemma delete_run:
  "loaded cls w = Inr (JList hs) \<Longrightarrow> \<forall>h\<in>set hs. has_key (id_key cls) h \<Longrightarrow>
   delete cls ident w =
     (Inr (), save_data (FILE cls) (JList (filter (\<lambda>h. \<not> carries (id_key cls) ident h) hs))
                (snd (load_data (FILE cls) w)))"
  by (simp add: delete_def split_beta loaded_def [symmetric] keep_others_filter)

lemma display_run:
  "loaded cls w = Inr (JList hs) \<Longrightarrow> \<forall>h\<in>set hs. has_key (id_key cls) h \<Longrightarrow>
   display cls ident w =
     (Inr (), (snd (load_data (FILE cls) w))
        \<lparr>stdout := stdout (snd (load_data (FILE cls) w))
                     @ map Repr (filter (carries (id_key cls) ident) hs)\<rparr>)"
  by (simp add: display_def split_beta loaded_def [symmetric] display_loop_prints)

lemma modify_run:
  "loaded cls w = Inr (JList hs) \<Longrightarrow> \<forall>h\<in>set hs. has_key (id_key cls) h \<Longrightarrow>
   modify cls ident new_info w =
     (Inr (), save_data (FILE cls)
                (JList (map (\<lambda>h. if carries (id_key cls) ident h then merged h new_info else h) hs))
                (snd (load_data (FILE cls) w)))"
  by (simp add: modify_def split_beta loaded_def [symmetric] modify_loop_map)

section \<open>Loading\<close>

text \<open>
  C7. Loading a file name that does not exist returns the empty collection; nothing is
  printed and no file changes.
\<close>

theorem load_data_missing_file:
  "files w file_name = None \<Longrightarrow> load_data file_name w = (Inr (JList []), w)"
  by (simp add: load_data_def)

theorem load_data_missing_file_witness:
  "files \<lparr>files = Map.empty, stdout = []\<rparr> ''hotels.json'' = None
   \<and> load_data ''hotels.json'' \<lparr>files = Map.empty, stdout = []\<rparr>
       = (Inr (JList []), \<lparr>files = Map.empty, stdout = []\<rparr>)"
  using load_data_missing_file [of "\<lparr>files = Map.empty, stdout = []\<rparr>" "''hotels.json''"]
  by simp

text \<open>
  C6, as stated: whenever the content of a file is not a valid persisted collection,
  loading reports an error, returns the empty collection and raises nothing. It fails
  twice. A file that holds the JSON document \<^verbatim>\<open>42\<close> is no collection, yet \<^verbatim>\<open>42\<close> is
  returned and nothing is printed. A file whose bytes are not UTF-8 is no collection
  either, and \<^verbatim>\<open>UnicodeDecodeError\<close> reaches the caller.
\<close>

theorem load_data_not_a_collection_counterexample:
  "\<not> persisted_collection (Document (JInt 42))
   \<and> load_data ''hotels.json'' (disk ''hotels.json'' (Document (JInt 42)))
     = (Inr (JInt 42), disk ''hotels.json'' (Document (JInt 42)))
   \<and> JInt 42 \<noteq> JList []
   \<and> \<not> persisted_collection (Unreadable UnicodeDecodeError)
   \<and> load_data ''hotels.json'' (disk ''hotels.json'' (Unreadable UnicodeDecodeError))
     = (Inl UnicodeDecodeError, disk ''hotels.json'' (Unreadable UnicodeDecodeError))"
  by (simp add: persisted_collection_def load_data_def disk_def)

text \<open>
  C6, amended: for every file that exists, whatever it holds. When the content is text
  that \<^verbatim>\<open>json.load\<close> rejects with \<^verbatim>\<open>JSONDecodeError\<close>, loading prints the error
  message that names the file, returns the empty collection and does not raise. When
  the content is a JSON document, a collection or not, loading returns the decoded
  value and prints nothing. When reading or decoding raises any other exception, that
  exception reaches the caller and nothing is printed. No file changes in any case.
\<close>

theorem load_data_existing_file:
  assumes "files w file_name = Some c"
  shows "(c = Invalid_format \<longrightarrow>
            load_data file_name w =
              (Inr (JList []),
               print (Text (''Error reading '' @ file_name @ ''. Invalid format.'')) w))
    \<and> (\<forall>d. c = Document d \<longrightarrow> load_data file_name w = (Inr d, w))
    \<and> (\<forall>e. c = Unreadable e \<longrightarrow> load_data file_name w = (Inl e, w))
    \<and> files (snd (load_data file_name w)) = files w"
  using assms by (cases c) (simp_all add: load_data_def print_def)

theorem load_data_existing_file_witness:
  "files (disk ''hotels.json'' Invalid_format) ''hotels.json'' = Some Invalid_format
   \<and> load_data ''hotels.json'' (disk ''hotels.json'' Invalid_format)
     = (Inr (JList []), \<lparr>files = [''hotels.json'' \<mapsto> Invalid_format],
                          stdout = [Text ''Error reading hotels.json. Invalid format.'']\<rparr>)
   \<and> files (disk ''hotels.json'' (Document (JObj []))) ''hotels.json'' = Some (Document (JObj []))
   \<and> load_data ''hotels.json'' (disk ''hotels.json'' (Document (JObj [])))
     = (Inr (JObj []), disk ''hotels.json'' (Document (JObj [])))
   \<and> files (disk ''hotels.json'' (Unreadable RecursionError)) ''hotels.json''
     = Some (Unreadable RecursionError)
   \<and> load_data ''hotels.json'' (disk ''hotels.json'' (Unreadable RecursionError))
     = (Inl RecursionError, disk ''hotels.json'' (Unreadable RecursionError))"
  using load_data_existing_file [of "disk ''hotels.json'' Invalid_format" "''hotels.json''"
      Invalid_format]
    load_data_existing_file [of "disk ''hotels.json'' (Document (JObj []))" "''hotels.json''"
      "Document (JObj [])"]
    load_data_existing_file [of "disk ''hotels.json'' (Unreadable RecursionError)" "''hotels.json''"
      "Unreadable RecursionError"]
  by (simp add: disk_def print_def)

section \<open>Create\<close>

text \<open>
  C3. Whatever list of entries the file of the manager loads as, create returns normally
  and saves that list with the new entry appended at the end: the stored collection is
  one entry longer. Nothing is asked of the identifiers already present, so an entry
  with the same identifier is appended all the same.
\<close>

theorem create_appends_entry:
  assumes "loaded cls w = Inr (JList hs)"
  shows "create cls entry w =
      (Inr (), save_data (FILE cls) (JList (hs @ [entry])) (snd (load_data (FILE cls) w)))
    \<and> loaded cls (snd (create cls entry w)) = Inr (JList (hs @ [entry]))
    \<and> length (hs @ [entry]) = length hs + 1"
  using create_run [OF assms, of entry] by (simp add: loaded_save_data)

theorem create_appends_entry_witness:
  "loaded HotelManager (disk ''hotels.json'' (Document (JList [Hotel_to_dict grand_plaza])))
     = Inr (JList [Hotel_to_dict grand_plaza])
   \<and> create_hotel grand_plaza (disk ''hotels.json'' (Document (JList [Hotel_to_dict grand_plaza])))
     = (Inr (), disk ''hotels.json''
          (Document (JList [Hotel_to_dict grand_plaza, Hotel_to_dict grand_plaza])))"
  using create_appends_entry [of HotelManager
      "disk ''hotels.json'' (Document (JList [Hotel_to_dict grand_plaza]))"
      "[Hotel_to_dict grand_plaza]" "Hotel_to_dict grand_plaza"]
  by (simp add: create_hotel_def fixtures)

text \<open>
  C1. When no entry of the loaded collection carries an identifier, creating an entry
  whose identifier field holds it returns normally, and the collection loaded afterwards
  has exactly one entry that carries the identifier.
\<close>

theorem create_then_load_exactly_one:
  assumes "loaded cls w = Inr (JList hs)"
    and "\<forall>h\<in>set hs. \<not> carries (id_key cls) ident h"
    and "getitem entry (id_key cls) = Inr ident"
  shows "fst (create cls entry w) = Inr ()
    \<and> loaded cls (snd (create cls entry w)) = Inr (JList (hs @ [entry]))
    \<and> length (filter (carries (id_key cls) ident) (hs @ [entry])) = 1"
proof -
  have "filter (carries (id_key cls) ident) hs = []"
    using assms(2) by (simp add: filter_empty_conv)
  moreover have "carries (id_key cls) ident entry"
    using assms(3) by (simp add: carries_def py_eq_refl)
  ultimately show ?thesis
    by (simp add: create_run [OF assms(1)] loaded_save_data)
qed

theorem create_then_load_exactly_one_witness:
  "loaded HotelManager (disk ''hotels.json'' (Document (JList [Hotel_to_dict seaside])))
     = Inr (JList [Hotel_to_dict seaside])
   \<and> list_all (\<lambda>h. \<not> carries ''hotel_id'' (JStr ''1'') h)
        [Hotel_to_dict seaside]
   \<and> getitem (Hotel_to_dict grand_plaza) ''hotel_id'' = Inr (JStr ''1'')
   \<and> fst (create_hotel grand_plaza (disk ''hotels.json'' (Document (JList [Hotel_to_dict seaside]))))
       = Inr ()
   \<and> loaded HotelManager
        (snd (create_hotel grand_plaza (disk ''hotels.json'' (Document (JList [Hotel_to_dict seaside])))))
       = Inr (JList [Hotel_to_dict seaside, Hotel_to_dict grand_plaza])
   \<and> length (filter (carries ''hotel_id'' (JStr ''1''))
        [Hotel_to_dict seaside, Hotel_to_dict grand_plaza]) = 1"
  using create_then_load_exactly_one [of HotelManager
      "disk ''hotels.json'' (Document (JList [Hotel_to_dict seaside]))"
      "[Hotel_to_dict seaside]" "JStr ''1''" "Hotel_to_dict grand_plaza"]
  by (simp add: create_hotel_def fixtures)

section \<open>Delete\<close>

text \<open>
  C2, as stated: on every collection delete saves the entries that do not match, and
  when no entry matches it saves the loaded collection and signals no error. It fails
  on a collection that holds an entry without the identifier key: no entry matches the
  identifier 7, yet delete raises \<^verbatim>\<open>KeyError\<close> and saves nothing; nor is the matching
  entry of identifier 1 removed.
\<close>

theorem delete_keyless_entry_counterexample:
  "loaded HotelManager (disk ''hotels.json'' (Document (JList [Hotel_to_dict grand_plaza, nameless])))
     = Inr (JList [Hotel_to_dict grand_plaza, nameless])
   \<and> list_all (\<lambda>h. \<not> carries ''hotel_id'' (JStr ''7'') h) [Hotel_to_dict grand_plaza, nameless]
   \<and> delete_hotel (JStr ''7'')
        (disk ''hotels.json'' (Document (JList [Hotel_to_dict grand_plaza, nameless])))
     = (Inl KeyError, disk ''hotels.json'' (Document (JList [Hotel_to_dict grand_plaza, nameless])))
   \<and> carries ''hotel_id'' (JStr ''1'') (Hotel_to_dict grand_plaza)
   \<and> delete_hotel (JStr ''1'')
        (disk ''hotels.json'' (Document (JList [Hotel_to_dict grand_plaza, nameless])))
     = (Inl KeyError, disk ''hotels.json'' (Document (JList [Hotel_to_dict grand_plaza, nameless])))"
  by (simp add: delete_hotel_def delete_def nameless_def fixtures)

text \<open>
  C2, amended: on a collection in which every entry has the identifier key, delete
  returns normally and saves the entries that do not carry the identifier, in their
  order: all matching entries are removed and every other entry is retained. When no
  entry matches, what is saved is the loaded collection.
\<close>

theorem delete_removes_exactly_matching:
  assumes "loaded cls w = Inr (JList hs)"
    and "\<forall>h\<in>set hs. has_key (id_key cls) h"
  shows "delete cls ident w =
      (Inr (), save_data (FILE cls) (JList (filter (\<lambda>h. \<not> carries (id_key cls) ident h) hs))
                 (snd (load_data (FILE cls) w)))
    \<and> ((\<forall>h\<in>set hs. \<not> carries (id_key cls) ident h) \<longrightarrow>
         delete cls ident w =
           (Inr (), save_data (FILE cls) (JList hs) (snd (load_data (FILE cls) w))))"
proof -
  have "filter (\<lambda>h. \<not> carries (id_key cls) ident h) hs = hs"
    if "\<forall>h\<in>set hs. \<not> carries (id_key cls) ident h"
    using that by (simp add: filter_id_conv)
  with delete_run [OF assms, of ident] show ?thesis by simp
qed

theorem delete_removes_exactly_matching_witness:
  "loaded HotelManager (disk ''hotels.json''
       (Document (JList [Hotel_to_dict grand_plaza, Hotel_to_dict seaside, Hotel_to_dict grand_plaza])))
     = Inr (JList [Hotel_to_dict grand_plaza, Hotel_to_dict seaside, Hotel_to_dict grand_plaza])
   \<and> list_all (has_key ''hotel_id'')
        [Hotel_to_dict grand_plaza, Hotel_to_dict seaside, Hotel_to_dict grand_plaza]
   \<and> delete_hotel (JStr ''1'') (disk ''hotels.json''
       (Document (JList [Hotel_to_dict grand_plaza, Hotel_to_dict seaside, Hotel_to_dict grand_plaza])))
     = (Inr (), disk ''hotels.json'' (Document (JList [Hotel_to_dict seaside])))
   \<and> list_all (\<lambda>h. \<not> carries ''hotel_id'' (JStr ''7'') h)
        [Hotel_to_dict grand_plaza, Hotel_to_dict seaside, Hotel_to_dict grand_plaza]
   \<and> delete_hotel (JStr ''7'') (disk ''hotels.json''
       (Document (JList [Hotel_to_dict grand_plaza, Hotel_to_dict seaside, Hotel_to_dict grand_plaza])))
     = (Inr (), disk ''hotels.json''
         (Document (JList [Hotel_to_dict grand_plaza, Hotel_to_dict seaside, Hotel_to_dict grand_plaza])))"
  using delete_removes_exactly_matching [of HotelManager
      "disk ''hotels.json''
         (Document (JList [Hotel_to_dict grand_plaza, Hotel_to_dict seaside, Hotel_to_dict grand_plaza]))"
      "[Hotel_to_dict grand_plaza, Hotel_to_dict seaside, Hotel_to_dict grand_plaza]" "JStr ''1''"]
    delete_removes_exactly_matching [of HotelManager
      "disk ''hotels.json''
         (Document (JList [Hotel_to_dict grand_plaza, Hotel_to_dict seaside, Hotel_to_dict grand_plaza]))"
      "[Hotel_to_dict grand_plaza, Hotel_to_dict seaside, Hotel_to_dict grand_plaza]" "JStr ''7''"]
  by (simp add: delete_hotel_def fixtures)

section \<open>Display\<close>

text \<open>
  C8, as stated: display prints the first matching entry and no more. It fails on a
  collection in which two hotels carry the identifier: both are printed.
\<close>

theorem display_first_match_only_counterexample:
  "stdout (snd (display_hotel (JStr ''1'') (disk ''hotels.json''
       (Document (JList [Hotel_to_dict grand_plaza, Hotel_to_dict grand_plaza_annex])))))
     = [Repr (Hotel_to_dict grand_plaza), Repr (Hotel_to_dict grand_plaza_annex)]
   \<and> [Repr (Hotel_to_dict grand_plaza), Repr (Hotel_to_dict grand_plaza_annex)]
       \<noteq> [Repr (Hotel_to_dict grand_plaza)]"
  by (simp add: display_hotel_def display_def grand_plaza_annex_def fixtures)

text \<open>
  C8, amended: on a collection of records, display returns normally and prints every
  entry that carries the identifier, in the order of the collection; when no entry
  matches it prints nothing; no file changes.
\<close>

theorem display_prints_every_match:
  assumes "loaded cls w = Inr (JList hs)"
    and "\<forall>h\<in>set hs. has_key (id_key cls) h"
  shows "display cls ident w =
      (Inr (), (snd (load_data (FILE cls) w))
         \<lparr>stdout := stdout (snd (load_data (FILE cls) w))
                      @ map Repr (filter (carries (id_key cls) ident) hs)\<rparr>)
    \<and> ((\<forall>h\<in>set hs. \<not> carries (id_key cls) ident h) \<longrightarrow>
          display cls ident w = (Inr (), snd (load_data (FILE cls) w)))
    \<and> files (snd (display cls ident w)) = files w"
proof -
  have "filter (carries (id_key cls) ident) hs = []"
    if "\<forall>h\<in>set hs. \<not> carries (id_key cls) ident h"
    using that by (simp add: filter_empty_conv)
  with display_run [OF assms, of ident] show ?thesis by (simp add: files_load_data)
qed

theorem display_prints_every_match_witness:
  "loaded HotelManager (disk ''hotels.json''
       (Document (JList [Hotel_to_dict grand_plaza, Hotel_to_dict seaside])))
     = Inr (JList [Hotel_to_dict grand_plaza, Hotel_to_dict seaside])
   \<and> list_all (has_key ''hotel_id'')
        [Hotel_to_dict grand_plaza, Hotel_to_dict seaside]
   \<and> display_hotel (JStr ''2'') (disk ''hotels.json''
       (Document (JList [Hotel_to_dict grand_plaza, Hotel_to_dict seaside])))
     = (Inr (), \<lparr>files = [''hotels.json'' \<mapsto>
                     Document (JList [Hotel_to_dict grand_plaza, Hotel_to_dict seaside])],
                 stdout = [Repr (Hotel_to_dict seaside)]\<rparr>)
   \<and> list_all (\<lambda>h. \<not> carries ''hotel_id'' (JStr ''7'') h)
        [Hotel_to_dict grand_plaza, Hotel_to_dict seaside]
   \<and> display_hotel (JStr ''7'') (disk ''hotels.json''
       (Document (JList [Hotel_to_dict grand_plaza, Hotel_to_dict seaside])))
     = (Inr (), disk ''hotels.json''
         (Document (JList [Hotel_to_dict grand_plaza, Hotel_to_dict seaside])))"
  using display_prints_every_match [of HotelManager
      "disk ''hotels.json'' (Document (JList [Hotel_to_dict grand_plaza, Hotel_to_dict seaside]))"
      "[Hotel_to_dict grand_plaza, Hotel_to_dict seaside]" "JStr ''2''"]
    display_prints_every_match [of HotelManager
      "disk ''hotels.json'' (Document (JList [Hotel_to_dict grand_plaza, Hotel_to_dict seaside]))"
      "[Hotel_to_dict grand_plaza, Hotel_to_dict seaside]" "JStr ''7''"]
  by (simp add: display_hotel_def fixtures)

section \<open>Modify\<close>

text \<open>
  C4, as stated: on every collection modify saves the collection in which the matching
  entries have the named fields overwritten. It fails on a collection that holds an
  entry without the identifier key: the hotel of identifier 1 matches, yet modify
  raises \<^verbatim>\<open>KeyError\<close> and saves nothing, so the stored hotel still has 100 rooms.
\<close>

theorem modify_keyless_entry_counterexample:
  "loaded HotelManager (disk ''hotels.json'' (Document (JList [Hotel_to_dict grand_plaza, nameless])))
     = Inr (JList [Hotel_to_dict grand_plaza, nameless])
   \<and> carries ''hotel_id'' (JStr ''1'') (Hotel_to_dict grand_plaza)
   \<and> modify_hotel (JStr ''1'') [(''rooms_available'', JInt 99)]
        (disk ''hotels.json'' (Document (JList [Hotel_to_dict grand_plaza, nameless])))
     = (Inl KeyError, disk ''hotels.json'' (Document (JList [Hotel_to_dict grand_plaza, nameless])))
   \<and> getitem (Hotel_to_dict grand_plaza) ''rooms_available'' = Inr (JInt 100)"
  by (simp add: modify_hotel_def modify_def nameless_def fixtures)

text \<open>
  C4, amended: on a collection in which every entry has the identifier key, modify
  returns normally and saves the collection in which every entry that carries the
  identifier has been merged with the new fields and every other entry is as it was.
  In a merged entry each field named in the new fields holds the given value, whether
  the entry had that field before or not. The new fields are a dictionary: each name
  occurs once.
\<close>

theorem modify_overwrites_named_fields:
  assumes "loaded cls w = Inr (JList hs)"
    and "\<forall>h\<in>set hs. has_key (id_key cls) h"
    and "distinct (map fst new_info)"
  shows "modify cls ident new_info w =
      (Inr (), save_data (FILE cls)
                 (JList (map (\<lambda>h. if carries (id_key cls) ident h then merged h new_info else h) hs))
                 (snd (load_data (FILE cls) w)))
    \<and> (\<forall>h\<in>set hs. carries (id_key cls) ident h \<longrightarrow>
          (\<forall>(f, v)\<in>set new_info. getitem (merged h new_info) f = Inr v))"
proof -
  have "modify cls ident new_info w =
      (Inr (), save_data (FILE cls)
                 (JList (map (\<lambda>h. if carries (id_key cls) ident h then merged h new_info else h) hs))
                 (snd (load_data (FILE cls) w)))"
    using assms(1,2) by (rule modify_run)
  moreover have "getitem (merged h new_info) f = Inr v"
    if "h \<in> set hs" and "(f, v) \<in> set new_info" for h f v
    using that assms(2,3) by (auto intro!: getitem_merged_named has_key_is_dict)
  ultimately show ?thesis by auto
qed

theorem modify_overwrites_named_fields_witness:
  "loaded HotelManager (disk ''hotels.json'' (Document (JList [Hotel_to_dict grand_plaza, Hotel_to_dict seaside])))
     = Inr (JList [Hotel_to_dict grand_plaza, Hotel_to_dict seaside])
   \<and> list_all (has_key ''hotel_id'')
        [Hotel_to_dict grand_plaza, Hotel_to_dict seaside]
   \<and> distinct (map fst [(''rooms_available'', JInt 99), (''stars'', JInt 5)])
   \<and> carries ''hotel_id'' (JStr ''1'') (Hotel_to_dict grand_plaza)
   \<and> modify_hotel (JStr ''1'') [(''rooms_available'', JInt 99), (''stars'', JInt 5)]
        (disk ''hotels.json'' (Document (JList [Hotel_to_dict grand_plaza, Hotel_to_dict seaside])))
     = (Inr (), disk ''hotels.json'' (Document (JList
          [JObj [(''hotel_id'', JStr ''1''), (''name'', JStr ''Grand Plaza''),
                 (''location'', JStr ''New York''), (''rooms_available'', JInt 99),
                 (''stars'', JInt 5)],
           Hotel_to_dict seaside])))
   \<and> getitem (merged (Hotel_to_dict grand_plaza) [(''rooms_available'', JInt 99), (''stars'', JInt 5)])
         ''rooms_available'' = Inr (JInt 99)
   \<and> getitem (merged (Hotel_to_dict grand_plaza) [(''rooms_available'', JInt 99), (''stars'', JInt 5)])
         ''stars'' = Inr (JInt 5)"
  using modify_overwrites_named_fields [of HotelManager
      "disk ''hotels.json'' (Document (JList [Hotel_to_dict grand_plaza, Hotel_to_dict seaside]))"
      "[Hotel_to_dict grand_plaza, Hotel_to_dict seaside]"
      "[(''rooms_available'', JInt 99), (''stars'', JInt 5)]" "JStr ''1''"]
  by (simp add: modify_hotel_def dict_update_def fixtures)

text \<open>
  C5. On a collection of records, modify returns normally and the collection loaded
  afterwards has the same length; at every position, an entry that carries the
  identifier reads the same as before at every field that the new fields do not name
  (the identifier field among them, when it is not named), and an entry that does not
  carry the identifier is unchanged.
\<close>

theorem modify_keeps_other_fields:
  assumes "loaded cls w = Inr (JList hs)"
    and "\<forall>h\<in>set hs. has_key (id_key cls) h"
  shows "fst (modify cls ident new_info w) = Inr ()
    \<and> (\<exists>hs'. loaded cls (snd (modify cls ident new_info w)) = Inr (JList hs')
          \<and> length hs' = length hs
          \<and> (\<forall>n<length hs.
                (carries (id_key cls) ident (hs ! n) \<longrightarrow>
                   (\<forall>f. f \<notin> fst ` set new_info \<longrightarrow> getitem (hs' ! n) f = getitem (hs ! n) f))
              \<and> (\<not> carries (id_key cls) ident (hs ! n) \<longrightarrow> hs' ! n = hs ! n)))"
proof -
  let ?hs' = "map (\<lambda>h. if carries (id_key cls) ident h then merged h new_info else h) hs"
  have "modify cls ident new_info w =
      (Inr (), save_data (FILE cls) (JList ?hs') (snd (load_data (FILE cls) w)))"
    using assms by (rule modify_run)
  then have "fst (modify cls ident new_info w) = Inr ()"
    and "loaded cls (snd (modify cls ident new_info w)) = Inr (JList ?hs')"
    by (simp_all add: loaded_save_data)
  moreover have "length ?hs' = length hs" by simp
  moreover have "\<forall>n<length hs.
      (carries (id_key cls) ident (hs ! n) \<longrightarrow>
         (\<forall>f. f \<notin> fst ` set new_info \<longrightarrow> getitem (?hs' ! n) f = getitem (hs ! n) f))
    \<and> (\<not> carries (id_key cls) ident (hs ! n) \<longrightarrow> ?hs' ! n = hs ! n)"
    by (simp add: getitem_merged_other)
  ultimately show ?thesis by blast
qed

theorem modify_keeps_other_fields_witness:
  "loaded HotelManager (disk ''hotels.json'' (Document (JList [Hotel_to_dict grand_plaza, Hotel_to_dict seaside])))
     = Inr (JList [Hotel_to_dict grand_plaza, Hotel_to_dict seaside])
   \<and> list_all (has_key ''hotel_id'')
        [Hotel_to_dict grand_plaza, Hotel_to_dict seaside]
   \<and> fst (modify_hotel (JStr ''1'') [(''rooms_available'', JInt 99)]
        (disk ''hotels.json'' (Document (JList [Hotel_to_dict grand_plaza, Hotel_to_dict seaside]))))
      = Inr ()
   \<and> (\<exists>hs'. loaded HotelManager (snd (modify_hotel (JStr ''1'') [(''rooms_available'', JInt 99)]
        (disk ''hotels.json'' (Document (JList [Hotel_to_dict grand_plaza, Hotel_to_dict seaside])))))
          = Inr (JList hs')
        \<and> length hs' = 2
        \<and> getitem (hs' ! 0) ''hotel_id'' = Inr (JStr ''1'')
        \<and> getitem (hs' ! 0) ''name'' = Inr (JStr ''Grand Plaza'')
        \<and> hs' ! 1 = Hotel_to_dict seaside)"
proof -
  let ?w = "disk ''hotels.json'' (Document (JList [Hotel_to_dict grand_plaza, Hotel_to_dict seaside]))"
  let ?hs = "[Hotel_to_dict grand_plaza, Hotel_to_dict seaside]"
  have h1: "loaded HotelManager ?w = Inr (JList ?hs)" by (simp add: fixtures)
  have h2: "\<forall>h\<in>set ?hs. has_key (id_key HotelManager) h" by (simp add: fixtures)
  from modify_keeps_other_fields [OF h1 h2, of "JStr ''1''" "[(''rooms_available'', JInt 99)]"]
  obtain hs' where ok: "fst (modify HotelManager (JStr ''1'') [(''rooms_available'', JInt 99)] ?w) = Inr ()"
    and ld: "loaded HotelManager (snd (modify HotelManager (JStr ''1'') [(''rooms_available'', JInt 99)] ?w)) = Inr (JList hs')"
    and len: "length hs' = length ?hs"
    and frame: "\<forall>n<length ?hs.
        (carries (id_key HotelManager) (JStr ''1'') (?hs ! n) \<longrightarrow>
           (\<forall>f. f \<notin> fst ` set [(''rooms_available'', JInt 99)] \<longrightarrow> getitem (hs' ! n) f = getitem (?hs ! n) f))
      \<and> (\<not> carries (id_key HotelManager) (JStr ''1'') (?hs ! n) \<longrightarrow> hs' ! n = ?hs ! n)"
    by blast
  from frame have f0: "carries (id_key HotelManager) (JStr ''1'') (?hs ! 0) \<longrightarrow>
           (\<forall>f. f \<notin> fst ` set [(''rooms_available'', JInt 99)] \<longrightarrow> getitem (hs' ! 0) f = getitem (?hs ! 0) f)"
    and f1: "\<not> carries (id_key HotelManager) (JStr ''1'') (?hs ! 1) \<longrightarrow> hs' ! 1 = ?hs ! 1"
    by simp_all
  have c0: "carries (id_key HotelManager) (JStr ''1'') (?hs ! 0)" by (simp add: fixtures)
  have c1: "\<not> carries (id_key HotelManager) (JStr ''1'') (?hs ! 1)" by (simp add: fixtures)
  from f0 c0 have g: "\<forall>f. f \<notin> fst ` set [(''rooms_available'', JInt 99)] \<longrightarrow> getitem (hs' ! 0) f = getitem (?hs ! 0) f"
    by blast
  from g have "getitem (hs' ! 0) ''hotel_id'' = getitem (?hs ! 0) ''hotel_id''"
    by (rule allE [where x = "''hotel_id''"]) simp
  then have a: "getitem (hs' ! 0) ''hotel_id'' = Inr (JStr ''1'')" by (simp add: fixtures)
  from g have "getitem (hs' ! 0) ''name'' = getitem (?hs ! 0) ''name''"
    by (rule allE [where x = "''name''"]) simp
  then have b: "getitem (hs' ! 0) ''name'' = Inr (JStr ''Grand Plaza'')" by (simp add: fixtures)
  from f1 c1 have c: "hs' ! 1 = Hotel_to_dict seaside" by simp
  from h1 h2 ok ld len a b c show ?thesis
    by (simp add: modify_hotel_def)
qed

section \<open>Create, then cancel\<close>

text \<open>
  C9, as stated: on every collection with no entry of the identifier, create followed
  by cancel leaves no entry of that identifier. It fails on a collection that holds an
  entry without the identifier key: no entry carries the identifier 1, the reservation
  is created, cancel raises \<^verbatim>\<open>KeyError\<close>, and the reservation is still loaded
  afterwards.
\<close>

theorem create_then_cancel_keyless_entry_counterexample:
  "loaded ReservationManager (disk ''reservations.json'' (Document (JList [walk_in])))
     = Inr (JList [walk_in])
   \<and> list_all (\<lambda>h. \<not> carries ''reservation_id'' (reservation_id booking) h) [walk_in]
   \<and> fst (create_reservation booking (disk ''reservations.json'' (Document (JList [walk_in]))))
      = Inr ()
   \<and> fst (cancel_reservation (reservation_id booking)
        (snd (create_reservation booking (disk ''reservations.json'' (Document (JList [walk_in]))))))
      = Inl KeyError
   \<and> loaded ReservationManager (snd (cancel_reservation (reservation_id booking)
        (snd (create_reservation booking (disk ''reservations.json'' (Document (JList [walk_in])))))))
      = Inr (JList [walk_in, Reservation_to_dict booking])
   \<and> carries ''reservation_id'' (reservation_id booking) (Reservation_to_dict booking)"
  by (simp add: create_reservation_def cancel_reservation_def create_def delete_def
      walk_in_def fixtures)

text \<open>
  C9, amended: on a collection of reservations in which every entry has the identifier
  key and none carries the identifier of a reservation, creating the reservation and
  then cancelling its identifier both return normally, and the collection loaded
  afterwards is the original one: no entry of it carries the identifier.
\<close>

theorem create_then_cancel_reservation:
  assumes "loaded ReservationManager w = Inr (JList hs)"
    and "\<forall>h\<in>set hs. has_key ''reservation_id'' h"
    and "\<forall>h\<in>set hs. \<not> carries ''reservation_id'' (reservation_id r) h"
  shows "fst (create_reservation r w) = Inr ()
    \<and> fst (cancel_reservation (reservation_id r) (snd (create_reservation r w))) = Inr ()
    \<and> loaded ReservationManager
         (snd (cancel_reservation (reservation_id r) (snd (create_reservation r w)))) = Inr (JList hs)
    \<and> list_all (\<lambda>h. \<not> carries ''reservation_id'' (reservation_id r) h) hs"
proof -
  let ?entry = "Reservation_to_dict r"
  let ?w1 = "save_data (FILE ReservationManager) (JList (hs @ [?entry]))
               (snd (load_data (FILE ReservationManager) w))"
  have created: "create_reservation r w = (Inr (), ?w1)"
    unfolding create_reservation_def using assms(1) by (rule create_run)
  have ld: "loaded ReservationManager ?w1 = Inr (JList (hs @ [?entry]))"
    by (rule loaded_save_data)
  have own: "carries ''reservation_id'' (reservation_id r) ?entry"
    by (simp add: carries_def Reservation_to_dict_def py_eq_refl)
  then have keys: "\<forall>h\<in>set (hs @ [?entry]). has_key ''reservation_id'' h"
    using assms(2) by (auto simp: carries_def has_key_def split: sum.splits)
  have kept: "filter (\<lambda>h. \<not> carries ''reservation_id'' (reservation_id r) h) (hs @ [?entry]) = hs"
    using assms(3) own by (simp add: filter_id_conv)
  have "\<forall>h\<in>set (hs @ [?entry]). has_key (id_key ReservationManager) h"
    using keys by simp
  from delete_run [OF ld this, of "reservation_id r"]
  have cancelled: "cancel_reservation (reservation_id r) ?w1 =
      (Inr (), save_data (FILE ReservationManager) (JList hs)
                 (snd (load_data (FILE ReservationManager) ?w1)))"
    unfolding cancel_reservation_def using kept by simp
  have absent: "list_all (\<lambda>h. \<not> carries ''reservation_id'' (reservation_id r) h) hs"
    using assms(3) by (simp add: list_all_iff)
  show ?thesis
    by (simp only: created cancelled fst_conv snd_conv loaded_save_data absent simp_thms)
qed

theorem create_then_cancel_reservation_witness:
  "loaded ReservationManager
      (disk ''reservations.json'' (Document (JList [Reservation_to_dict earlier_booking])))
     = Inr (JList [Reservation_to_dict earlier_booking])
   \<and> list_all (has_key ''reservation_id'')
        [Reservation_to_dict earlier_booking]
   \<and> list_all (\<lambda>h. \<not> carries ''reservation_id'' (reservation_id booking) h)
        [Reservation_to_dict earlier_booking]
   \<and> fst (create_reservation booking
        (disk ''reservations.json'' (Document (JList [Reservation_to_dict earlier_booking]))))
      = Inr ()
   \<and> fst (cancel_reservation (JStr ''1'') (snd (create_reservation booking
        (disk ''reservations.json'' (Document (JList [Reservation_to_dict earlier_booking]))))))
      = Inr ()
   \<and> loaded ReservationManager (snd (cancel_reservation (JStr ''1'') (snd (create_reservation booking
        (disk ''reservations.json'' (Document (JList [Reservation_to_dict earlier_booking])))))))
      = Inr (JList [Reservation_to_dict earlier_booking])
   \<and> list_all (\<lambda>h. \<not> carries ''reservation_id'' (JStr ''1'') h)
        [Reservation_to_dict earlier_booking]"
  using create_then_cancel_reservation [of
      "disk ''reservations.json'' (Document (JList [Reservation_to_dict earlier_booking]))"
      "[Reservation_to_dict earlier_booking]" booking]
  by (simp add: earlier_booking_def fixtures)

section \<open>The identifier is read without a guard\<close>



end
